theory Spec2Isabelle
  imports Main
begin

section \<open>Errors and observable effects\<close>

text \<open>
  \<open>error?.message\<close> of a caught value: \<open>None\<close> stands for \<open>undefined\<close>.
\<close>

type_synonym message = "string option"

text \<open>
  The error classes of \<open>@solana/wallet-adapter-base\<close> and \<open>./errors\<close> that the two
  source files construct. The second constructor argument of the wrapping classes (the
  original error, kept as context) is not represented.
\<close>

datatype wallet_error =
    WalletNotSelectedError
  | WalletNotReadyError
  | WalletNotConnectedError
  | WalletLoadError message
  | WalletConfigError message
  | WalletConnectionError message
  | WalletWindowClosedError
  | WalletWindowBlockedError
  | WalletTimeoutError
  | WalletDisconnectionError message
  | WalletDisconnectedError
  | WalletSignTransactionError message
  | WalletSignMessageError message

text \<open>
  A value a promise is rejected with: an instance of \<open>WalletError\<close>, or anything else
  (what the transport library rejects with), of which only the message is read.
\<close>

datatype thrown = IsWalletError wallet_error | Foreign message

datatype transaction = Transaction nat

type_synonym pubkey = string

text \<open>The four events an adapter emits (\<open>this.emit(...)\<close>).\<close>

datatype adapter_event = EvReady | EvConnect | EvDisconnect | EvError wallet_error

datatype network = Mainnet | Testnet | Devnet

text \<open>
  \<open>config.provider\<close>: a string endpoint, or an injected object; the flag says whether
  \<open>typeof provider.postMessage === 'function'\<close>.
\<close>

datatype provider = ProviderUrl string | ProviderObject bool

text \<open>
  Everything the code does to the outside, in the order it does it: events emitted by the
  adapter, calls into the transport library, and (for the provider component) calls of
  \<open>window.open\<close>, of the error sink \<open>onError\<close> and of the selected adapter's methods.
\<close>

datatype effect =
    Emit adapter_event
  | ImportTransport
  | NewTransport "provider option" network
  | TransportConnectCall
  | TransportDisconnectCall
  | TransportSignTransaction transaction
  | TransportSignAllTransactions "transaction list"
  | WindowOpen string string
  | OnError wallet_error
  | AdapterConnect
  | AdapterDisconnect
  | AdapterSendTransaction transaction

fun opened :: "effect list \<Rightarrow> (string \<times> string) list" where
  "opened [] = []"
| "opened (WindowOpen u t # es) = (u, t) # opened es"
| "opened (e # es) = opened es"

fun emitted :: "effect list \<Rightarrow> adapter_event list" where
  "emitted [] = []"
| "emitted (Emit ev # es) = ev # emitted es"
| "emitted (e # es) = emitted es"

section \<open>The transport object and the adapter's private state\<close>

text \<open>
  \<open>wallet.handleDisconnect\<close>: the transport's own callback, or the closure a pending
  race of the adapter has put in its place.
\<close>

datatype handler = Original | Intercepted

text \<open>
  The \<open>Wallet\<close> object of \<open>@project-serum/sol-wallet-adapter\<close>, as far as the adapter
  reads and writes it: \<open>tp_connected\<close> and \<open>tp_publicKey\<close> are \<open>wallet.connected\<close> and
  \<open>wallet.publicKey\<close>; \<open>connect_listener\<close> says whether the closure \<open>connect\<close> of the
  handshake is registered for the event 'connect'; \<open>disconnect_listener\<close> whether
  \<open>this._disconnected\<close> is registered for 'disconnect'; \<open>original_calls\<close> counts the calls
  of the transport's own \<open>handleDisconnect\<close>; \<open>responsePromises_reset\<close> records the
  assignment \<open>wallet._responsePromises = new Map()\<close>.
\<close>

record transport =
  tp_provider :: "provider option"
  tp_network :: network
  tp_connected :: bool
  tp_publicKey :: "pubkey option"
  connect_listener :: bool
  disconnect_listener :: bool
  handleDisconnect :: handler
  original_calls :: nat
  responsePromises_reset :: bool

definition new_transport :: "provider option \<Rightarrow> network \<Rightarrow> transport" where
  "new_transport p n =
     \<lparr>tp_provider = p, tp_network = n, tp_connected = False, tp_publicKey = None,
      connect_listener = False, disconnect_listener = False, handleDisconnect = Original,
      original_calls = 0, responsePromises_reset = False\<rparr>"

record adapter =
  priv_provider :: "provider option"
  priv_network :: network
  priv_connecting :: bool
  priv_wallet :: "transport option"

text \<open>The constructor: \<open>config.network || WalletAdapterNetwork.Mainnet\<close>.\<close>

definition SolletWalletAdapter :: "provider option \<Rightarrow> network option \<Rightarrow> adapter" where
  "SolletWalletAdapter cfg_provider cfg_network =
     \<lparr>priv_provider = cfg_provider,
      priv_network = (case cfg_network of None \<Rightarrow> Mainnet | Some n \<Rightarrow> n),
      priv_connecting = False,
      priv_wallet = None\<rparr>"

definition adapter_publicKey :: "adapter \<Rightarrow> pubkey option" where
  "adapter_publicKey a = (case priv_wallet a of None \<Rightarrow> None | Some w \<Rightarrow> tp_publicKey w)"

definition adapter_connecting :: "adapter \<Rightarrow> bool" where
  "adapter_connecting a = priv_connecting a"

definition adapter_connected :: "adapter \<Rightarrow> bool" where
  "adapter_connected a = (case priv_wallet a of None \<Rightarrow> False | Some w \<Rightarrow> tp_connected w)"

section \<open>The page the adapter runs in, and \<open>ready()\<close>\<close>

text \<open>
  \<open>window_sollet\<close> is \<open>window.sollet\<close> when the adapter reads it: \<open>None\<close> for
  \<open>undefined\<close>, otherwise whether its \<open>postMessage\<close> is a function. When the document
  is not complete yet, \<open>ready()\<close> reads it in the 'load' listener: \<open>sollet_at_load\<close>.
\<close>

record page =
  window_defined :: bool
  document_defined :: bool
  document_complete :: bool
  window_sollet :: "bool option"
  sollet_at_load :: "bool option"

definition adapter_ready :: "adapter \<Rightarrow> page \<Rightarrow> bool" where
  "adapter_ready a pg =
     (if \<not> window_defined pg \<or> \<not> document_defined pg then False
      else if (case priv_provider a of
                 Some (ProviderUrl u) \<Rightarrow> True
               | Some (ProviderObject has_post) \<Rightarrow> has_post
               | None \<Rightarrow> False) then True
      else if document_complete pg then window_sollet pg = Some True
      else sollet_at_load pg = Some True)"

text \<open>
  \<open>this._provider || window!.sollet!\<close>: the empty string is falsy, so it gives way to
  \<open>window.sollet\<close> as \<open>undefined\<close> does.
\<close>

definition sollet_seen :: "page \<Rightarrow> provider option" where
  "sollet_seen pg =
     map_option ProviderObject
       (if document_complete pg then window_sollet pg else sollet_at_load pg)"

definition chosen_provider :: "adapter \<Rightarrow> page \<Rightarrow> provider option" where
  "chosen_provider a pg =
     (case priv_provider a of
        None \<Rightarrow> sollet_seen pg
      | Some (ProviderUrl u) \<Rightarrow> (if u = [] then sollet_seen pg else Some (ProviderUrl u))
      | Some (ProviderObject b) \<Rightarrow> Some (ProviderObject b))"

text \<open>\<open>typeof provider === 'string'\<close>\<close>

fun is_string :: "provider option \<Rightarrow> bool" where
  "is_string (Some (ProviderUrl u)) = True"
| "is_string p = False"

section \<open>The handshake race of \<open>connect()\<close>\<close>

text \<open>
  A timer handle (\<open>timeout\<close>, \<open>interval\<close>): never set, pending with its delay in
  milliseconds, fired (a one-shot timer whose callback has run), or cleared.
\<close>

datatype timer = Unset | Pending nat | Fired | Cleared

datatype settlement = Resolved | Rejected thrown

text \<open>
  The state of one race: the promise (\<open>None\<close> while pending), the two timer handles, the
  counter of the poll, and the transport object.
\<close>

record race =
  settled :: "settlement option"
  timeout :: timer
  interval :: timer
  count :: nat
  rc_wallet :: transport

text \<open>\<open>resolve\<close> and \<open>reject\<close> of a promise: only the first call settles it.\<close>

definition resolve :: "race \<Rightarrow> race" where
  "resolve r = (if settled r = None then r\<lparr>settled := Some Resolved\<rparr> else r)"

definition reject :: "thrown \<Rightarrow> race \<Rightarrow> race" where
  "reject e r = (if settled r = None then r\<lparr>settled := Some (Rejected e)\<rparr> else r)"

text \<open>\<open>clearTimeout\<close>, \<open>clearInterval\<close>: a pending timer is removed, anything else stays.\<close>

fun clear :: "timer \<Rightarrow> timer" where
  "clear (Pending d) = Cleared"
| "clear t = t"

definition off_connect :: "race \<Rightarrow> race" where
  "off_connect r = r\<lparr>rc_wallet := (rc_wallet r)\<lparr>connect_listener := False\<rparr>\<rparr>"

definition call_original :: "race \<Rightarrow> race" where
  "call_original r =
     r\<lparr>rc_wallet := (rc_wallet r)\<lparr>original_calls := Suc (original_calls (rc_wallet r))\<rparr>\<rparr>"

text \<open>
  The closure \<open>connect\<close>: \<open>if (timeout) clearTimeout(timeout); wallet.off('connect',
  connect); resolve()\<close>.
\<close>

definition connect_listener_body :: "race \<Rightarrow> race" where
  "connect_listener_body r = resolve (off_connect (r\<lparr>timeout := clear (timeout r)\<rparr>))"

text \<open>\<open>(wallet as any)._popup\<close> when the poll reads it.\<close>

datatype popup = NoPopup | PopupOpen | PopupClosed

text \<open>The callback of \<open>setInterval\<close>.\<close>

definition interval_body :: "popup \<Rightarrow> race \<Rightarrow> race" where
  "interval_body p r =
     (let r' = (case p of
                  NoPopup \<Rightarrow> (if count r > 50
                               then reject (IsWalletError WalletWindowBlockedError) r else r)
                | PopupOpen \<Rightarrow> r
                | PopupClosed \<Rightarrow> reject (IsWalletError WalletWindowClosedError) r)
      in r'\<lparr>count := Suc (count r')\<rparr>)"

text \<open>
  What can happen while the promise is pending: the transport emits 'connect' (having set
  its public key), the promise of \<open>wallet.connect()\<close> rejects, the transport calls its
  \<open>handleDisconnect\<close>, the period of the interval elapses, the delay of the timeout
  elapses. A listener or timer callback runs only while it is registered.
\<close>

datatype hs_event =
    TransportConnect pubkey
  | ConnectRejected message
  | TransportDisconnect
  | IntervalElapsed popup
  | TimeoutElapsed

fun deliver :: "hs_event \<Rightarrow> race \<Rightarrow> race" where
  "deliver (TransportConnect pk) r =
     (let r' = r\<lparr>rc_wallet := (rc_wallet r)\<lparr>tp_connected := True, tp_publicKey := Some pk\<rparr>\<rparr>
      in if connect_listener (rc_wallet r') then connect_listener_body r' else r')"
| "deliver (ConnectRejected m) r = reject (Foreign m) (off_connect r)"
| "deliver TransportDisconnect r =
     (case handleDisconnect (rc_wallet r) of
        Intercepted \<Rightarrow>
          call_original (reject (IsWalletError WalletWindowClosedError) (off_connect r))
      | Original \<Rightarrow> call_original r)"
| "deliver (IntervalElapsed p) r =
     (case interval r of Pending d \<Rightarrow> interval_body p r | _ \<Rightarrow> r)"
| "deliver TimeoutElapsed r =
     (case timeout r of
        Pending d \<Rightarrow> reject (IsWalletError WalletTimeoutError) (r\<lparr>timeout := Fired\<rparr>)
      | _ \<Rightarrow> r)"

text \<open>
  The executor of the promise: the interception of \<open>handleDisconnect\<close>, \<open>wallet.on\<close>,
  \<open>wallet.connect()\<close>, and the poll (string provider) or the timeout (any other).
\<close>

definition start_race :: "provider option \<Rightarrow> transport \<Rightarrow> race" where
  "start_race p w =
     \<lparr>settled = None,
      timeout = (if is_string p then Unset else Pending 10000),
      interval = (if is_string p then Pending 100 else Unset),
      count = 0,
      rc_wallet = w\<lparr>handleDisconnect := Intercepted, connect_listener := True\<rparr>\<rparr>"

text \<open>
  The events are delivered in order until the promise settles: the continuation of the
  \<open>await\<close> then runs before any further timer or transport event.
\<close>

fun run_race :: "race \<Rightarrow> hs_event list \<Rightarrow> race" where
  "run_race r [] = r"
| "run_race r (e # es) = (if settled r = None then run_race (deliver e r) es else r)"

text \<open>The \<open>finally\<close> block of the race.\<close>

definition race_finally :: "race \<Rightarrow> race" where
  "race_finally r =
     r\<lparr>rc_wallet := (rc_wallet r)\<lparr>handleDisconnect := Original\<rparr>,
       interval := clear (interval r)\<rparr>"

text \<open>
  Lines 356 to 403: the race and its cleanup. While the promise is pending (the events
  given do not settle it) the \<open>finally\<close> block has not run.
\<close>

definition handshake :: "provider option \<Rightarrow> transport \<Rightarrow> hs_event list \<Rightarrow> race" where
  "handshake p w evs =
     (let r = run_race (start_race p w) evs
      in if settled r = None then r else race_finally r)"

section \<open>\<open>SolletWalletAdapter.connect\<close>\<close>

text \<open>
  How an asynchronous call ends: its promise is still pending after the events given, it
  is fulfilled, or it is rejected (the call throws).
\<close>

datatype 'a outcome = StillPending | Returned 'a | Threw wallet_error

text \<open>
  What the surroundings do during one call of \<open>connect()\<close>: the page, whether the dynamic
  import and the constructor of the transport fail (with the message of what they throw),
  and the events of the handshake.
\<close>

record connect_env =
  ce_page :: page
  import_fails :: "message option"
  construct_fails :: "message option"
  ce_events :: "hs_event list"

text \<open>
  The catch clause around the race: \<open>if (error instanceof WalletError) throw error; throw
  new WalletConnectionError(error?.message, error)\<close>.
\<close>

fun race_catch :: "thrown \<Rightarrow> wallet_error" where
  "race_catch (IsWalletError e) = e"
| "race_catch (Foreign m) = WalletConnectionError m"

text \<open>The body of the outer \<open>try\<close>.\<close>

definition connect_try :: "adapter \<Rightarrow> connect_env \<Rightarrow> unit outcome \<times> adapter \<times> effect list" where
  "connect_try a env =
     (if adapter_connected a \<or> adapter_connecting a then (Returned (), a, [])
      else
        let a1 = a\<lparr>priv_connecting := True\<rparr> in
        if \<not> adapter_ready a1 (ce_page env) then (Threw WalletNotReadyError, a1, [])
        else
          let p = chosen_provider a1 (ce_page env) in
          (case import_fails env of
             Some m \<Rightarrow> (Threw (WalletLoadError m), a1, [ImportTransport])
           | None \<Rightarrow>
              (case construct_fails env of
                 Some m \<Rightarrow>
                   (Threw (WalletConfigError m), a1,
                    [ImportTransport, NewTransport p (priv_network a1)])
               | None \<Rightarrow>
                   let r = handshake p (new_transport p (priv_network a1)) (ce_events env);
                       effs = [ImportTransport, NewTransport p (priv_network a1),
                               TransportConnectCall]
                   in (case settled r of
                         None \<Rightarrow> (StillPending, a1, effs)
                       | Some (Rejected e) \<Rightarrow> (Threw (race_catch e), a1, effs)
                       | Some Resolved \<Rightarrow>
                           (Returned (),
                            a1\<lparr>priv_wallet :=
                                  Some ((rc_wallet r)\<lparr>disconnect_listener := True\<rparr>)\<rparr>,
                            effs @ [Emit EvConnect])))))"

text \<open>\<open>catch (error) { this.emit('error', error); throw error; }\<close>\<close>

fun connect_catch :: "unit outcome \<times> adapter \<times> effect list \<Rightarrow> unit outcome \<times> adapter \<times> effect list" where
  "connect_catch (Threw e, a, effs) = (Threw e, a, effs @ [Emit (EvError e)])"
| "connect_catch (out, a, effs) = (out, a, effs)"

text \<open>\<open>finally { this._connecting = false; }\<close>, which runs once the call leaves the \<open>try\<close>.\<close>

fun connect_finally :: "unit outcome \<times> adapter \<times> effect list \<Rightarrow> unit outcome \<times> adapter \<times> effect list" where
  "connect_finally (StillPending, a, effs) = (StillPending, a, effs)"
| "connect_finally (out, a, effs) = (out, a\<lparr>priv_connecting := False\<rparr>, effs)"

definition adapter_connect :: "adapter \<Rightarrow> connect_env \<Rightarrow> unit outcome \<times> adapter \<times> effect list" where
  "adapter_connect a env = connect_finally (connect_catch (connect_try a env))"

section \<open>\<open>SolletWalletAdapter.disconnect\<close>\<close>

datatype td_settlement = TdResolved | TdRejected message

record teardown =
  td_settled :: "td_settlement option"
  td_timeout :: timer
  td_wallet :: transport

definition td_resolve :: "teardown \<Rightarrow> teardown" where
  "td_resolve r = (if td_settled r = None then r\<lparr>td_settled := Some TdResolved\<rparr> else r)"

definition td_reject :: "message \<Rightarrow> teardown \<Rightarrow> teardown" where
  "td_reject m r = (if td_settled r = None then r\<lparr>td_settled := Some (TdRejected m)\<rparr> else r)"

definition td_clearTimeout :: "teardown \<Rightarrow> teardown" where
  "td_clearTimeout r = r\<lparr>td_timeout := clear (td_timeout r)\<rparr>"

text \<open>
  What can happen while the teardown is awaited: the 250 ms elapse, the transport calls its
  \<open>handleDisconnect\<close>, the promise of \<open>wallet.disconnect()\<close> is fulfilled, or it is
  rejected with an error of the given message.
\<close>

datatype td_event =
    GraceElapsed
  | TransportDisconnected
  | DisconnectFulfilled
  | DisconnectRejected message

fun td_deliver :: "td_event \<Rightarrow> teardown \<Rightarrow> teardown" where
  "td_deliver GraceElapsed r =
     (case td_timeout r of Pending d \<Rightarrow> td_resolve (r\<lparr>td_timeout := Fired\<rparr>) | _ \<Rightarrow> r)"
| "td_deliver TransportDisconnected r =
     (case handleDisconnect (td_wallet r) of
        Intercepted \<Rightarrow>
          (let r' = td_resolve (td_clearTimeout r)
           in r'\<lparr>td_wallet := (td_wallet r')\<lparr>responsePromises_reset := True,
                   original_calls := Suc (original_calls (td_wallet r'))\<rparr>\<rparr>)
      | Original \<Rightarrow>
          r\<lparr>td_wallet := (td_wallet r)\<lparr>original_calls := Suc (original_calls (td_wallet r))\<rparr>\<rparr>)"
| "td_deliver DisconnectFulfilled r = td_resolve (td_clearTimeout r)"
| "td_deliver (DisconnectRejected m) r =
     (if m = Some ''Wallet disconnected'' then td_resolve (td_clearTimeout r)
      else td_reject m (td_clearTimeout r))"

definition start_teardown :: "transport \<Rightarrow> teardown" where
  "start_teardown w =
     \<lparr>td_settled = None, td_timeout = Pending 250,
      td_wallet = w\<lparr>handleDisconnect := Intercepted\<rparr>\<rparr>"

fun run_teardown :: "teardown \<Rightarrow> td_event list \<Rightarrow> teardown" where
  "run_teardown r [] = r"
| "run_teardown r (e # es) = (if td_settled r = None then run_teardown (td_deliver e r) es else r)"

definition td_finally :: "teardown \<Rightarrow> teardown" where
  "td_finally r = r\<lparr>td_wallet := (td_wallet r)\<lparr>handleDisconnect := Original\<rparr>\<rparr>"

text \<open>
  The whole call. While the teardown is pending (no event has settled it) the state
  returned is the one at the \<open>await\<close>.
\<close>

definition adapter_disconnect :: "adapter \<Rightarrow> td_event list \<Rightarrow> unit outcome \<times> adapter \<times> effect list" where
  "adapter_disconnect a evs =
     (case priv_wallet a of
        None \<Rightarrow> (Returned (), a, [Emit EvDisconnect])
      | Some w \<Rightarrow>
          let a1 = a\<lparr>priv_wallet := None\<rparr>;
              r = run_teardown (start_teardown (w\<lparr>disconnect_listener := False\<rparr>)) evs
          in (case td_settled r of
                None \<Rightarrow> (StillPending, a1, [TransportDisconnectCall])
              | Some TdResolved \<Rightarrow>
                  (Returned (), a1, [TransportDisconnectCall, Emit EvDisconnect])
              | Some (TdRejected m) \<Rightarrow>
                  (Returned (), a1,
                   [TransportDisconnectCall, Emit (EvError (WalletDisconnectionError m)),
                    Emit EvDisconnect])))"

text \<open>The transport object the call leaves behind, once the teardown has settled.\<close>

definition disconnect_leaves :: "transport \<Rightarrow> td_event list \<Rightarrow> teardown" where
  "disconnect_leaves w evs =
     (let r = run_teardown (start_teardown (w\<lparr>disconnect_listener := False\<rparr>)) evs
      in if td_settled r = None then r else td_finally r)"

text \<open>The listener \<open>_disconnected\<close>.\<close>

definition disconnected_listener :: "adapter \<Rightarrow> adapter \<times> effect list" where
  "disconnected_listener a =
     (case priv_wallet a of
        None \<Rightarrow> (a, [])
      | Some w \<Rightarrow>
          (a\<lparr>priv_wallet := None\<rparr>, [Emit (EvError WalletDisconnectedError), Emit EvDisconnect]))"

section \<open>\<open>SolletWalletAdapter.signTransaction\<close> and \<open>signAllTransactions\<close>\<close>

text \<open>
  The promise of a signing call of the transport: fulfilled with a value (\<open>None\<close> for
  \<open>null\<close> or \<open>undefined\<close>; a transaction and an array, the empty one too, are truthy) or
  rejected with an error of the given message.
\<close>

datatype 'a reply = Fulfilled "'a option" | RejectedWith message

definition adapter_signTransaction ::
  "adapter \<Rightarrow> transaction \<Rightarrow> transaction reply \<Rightarrow> transaction outcome \<times> effect list" where
  "adapter_signTransaction a tx rep =
     (case priv_wallet a of
        None \<Rightarrow> (Threw WalletNotConnectedError, [Emit (EvError WalletNotConnectedError)])
      | Some w \<Rightarrow>
          (case rep of
             Fulfilled (Some signed) \<Rightarrow> (Returned signed, [TransportSignTransaction tx])
           | Fulfilled None \<Rightarrow> (Returned tx, [TransportSignTransaction tx])
           | RejectedWith m \<Rightarrow>
               (Threw (WalletSignTransactionError m),
                [TransportSignTransaction tx, Emit (EvError (WalletSignTransactionError m))])))"

definition adapter_signAllTransactions ::
  "adapter \<Rightarrow> transaction list \<Rightarrow> transaction list reply
     \<Rightarrow> transaction list outcome \<times> effect list" where
  "adapter_signAllTransactions a txs rep =
     (case priv_wallet a of
        None \<Rightarrow> (Threw WalletNotConnectedError, [Emit (EvError WalletNotConnectedError)])
      | Some w \<Rightarrow>
          (case rep of
             Fulfilled (Some signed) \<Rightarrow> (Returned signed, [TransportSignAllTransactions txs])
           | Fulfilled None \<Rightarrow> (Returned txs, [TransportSignAllTransactions txs])
           | RejectedWith m \<Rightarrow>
               (Threw (WalletSignTransactionError m),
                [TransportSignAllTransactions txs,
                 Emit (EvError (WalletSignTransactionError m))])))"

section \<open>\<open>WalletProvider\<close>: the state and its setters\<close>

text \<open>
  A wallet of the \<open>wallets\<close> property, an object with the properties \<open>name\<close>, \<open>url\<close>,
  \<open>icon\<close> and \<open>adapter\<close> (the interface \<open>Wallet\<close> of
  \<open>@solana/wallet-adapter-wallets\<close>). The function \<open>adapter\<close> is given by what a call of
  it does: \<open>w_adapter_throws\<close> says that it throws, and otherwise \<open>w_ready\<close> is the
  \<open>ready\<close> property of the adapter it constructs.
\<close>

record wallet_descr =
  w_name :: string
  w_url :: string
  w_icon :: string
  w_adapter_throws :: bool
  w_ready :: bool

text \<open>The adapter instance held in the state: the one constructed for the named wallet.\<close>

datatype adapter_ref = AdapterOf string

text \<open>
  The cells of \<open>useLocalStorage\<close> and \<open>useState\<close>. A setter is modelled as an immediate
  update of its cell, and a callback reads the cells as they are when it runs. The name is
  a string or \<open>null\<close>, as its type declares; the string is any string, since it is read
  from the storage.
\<close>

record connection_state =
  name :: "string option"
  wallet :: "wallet_descr option"
  adapter :: "adapter_ref option"
  ready :: bool
  connecting :: bool
  disconnecting :: bool
  connected :: bool
  autoApprove :: bool
  publicKey :: "pubkey option"

definition initial_state :: "string option \<Rightarrow> connection_state" where
  "initial_state stored =
     \<lparr>name = stored, wallet = None, adapter = None, ready = False, connecting = False,
      disconnecting = False, connected = False, autoApprove = False, publicKey = None\<rparr>"

text \<open>
  The table \<open>walletsByName\<close> is a plain object: it has the properties the reduction has
  assigned (\<open>own\<close>), and it inherits the others from its prototype. The prototype is
  \<open>Object.prototype\<close> (\<open>proto = None\<close>) until a wallet named \<open>__proto__\<close> is assigned:
  that assignment runs the setter of \<open>Object.prototype.__proto__\<close>, which makes the wallet
  the prototype of the table and adds no property to it.
\<close>

record wallet_table =
  own :: "string \<rightharpoonup> wallet_descr"
  proto :: "wallet_descr option"

text \<open>\<open>walletsByName[wallet.name] = wallet\<close>\<close>

definition assign :: "wallet_descr \<Rightarrow> wallet_table \<Rightarrow> wallet_table" where
  "assign w t =
     (if w_name w = ''__proto__'' then t\<lparr>proto := Some w\<rparr>
      else t\<lparr>own := (own t)(w_name w \<mapsto> w)\<rparr>)"

text \<open>\<open>wallets.reduce(...)\<close>: a later wallet of the same name replaces an earlier one.\<close>

definition walletsByName :: "wallet_descr list \<Rightarrow> wallet_table" where
  "walletsByName wallets = fold assign wallets \<lparr>own = Map.empty, proto = None\<rparr>"

text \<open>
  What a read \<open>walletsByName[name]\<close> can give: \<open>undefined\<close>, a wallet, a string (a
  property of a wallet that has become the prototype), or \<open>NotAWallet\<close>: a function or
  object that is truthy and has no property \<open>adapter\<close> (a member of \<open>Object.prototype\<close>,
  \<open>Object.prototype\<close> itself, or the function \<open>adapter\<close> of a wallet).
\<close>

datatype looked_up = Undefined | WalletObject wallet_descr | StringValue string | NotAWallet

text \<open>The names of the properties of \<open>Object.prototype\<close>.\<close>

definition object_prototype_names :: "string list" where
  "object_prototype_names =
     [''constructor'', ''__defineGetter__'', ''__defineSetter__'', ''hasOwnProperty'',
      ''__lookupGetter__'', ''__lookupSetter__'', ''isPrototypeOf'', ''propertyIsEnumerable'',
      ''toString'', ''valueOf'', ''__proto__'', ''toLocaleString'']"

definition from_object_prototype :: "string \<Rightarrow> looked_up" where
  "from_object_prototype k = (if k \<in> set object_prototype_names then NotAWallet else Undefined)"

text \<open>
  The read: an own property first, then the prototype chain. With a wallet as the
  prototype, \<open>__proto__\<close> reads that wallet, and its four properties are inherited before
  those of \<open>Object.prototype\<close>.
\<close>

definition lookup :: "wallet_table \<Rightarrow> string \<Rightarrow> looked_up" where
  "lookup t k =
     (case own t k of
        Some w \<Rightarrow> WalletObject w
      | None \<Rightarrow>
          (case proto t of
             None \<Rightarrow> from_object_prototype k
           | Some w \<Rightarrow>
               (if k = ''__proto__'' then WalletObject w
                else if k = ''name'' then StringValue (w_name w)
                else if k = ''url'' then StringValue (w_url w)
                else if k = ''icon'' then StringValue (w_icon w)
                else if k = ''adapter'' then NotAWallet
                else from_object_prototype k)))"

text \<open>
  What an effect can throw to React: the \<open>TypeError\<close> of calling \<open>wallet.adapter()\<close> on a
  value that has no such function, or whatever the function \<open>adapter\<close> of a wallet throws.
\<close>

datatype js_exception = TypeError | ThrownByAdapterFunction

definition reset :: "connection_state \<Rightarrow> connection_state" where
  "reset st =
     st\<lparr>ready := False, connecting := False, disconnecting := False, connected := False,
        autoApprove := False, publicKey := None\<rparr>"

definition onReady :: "connection_state \<Rightarrow> connection_state" where
  "onReady st = st\<lparr>ready := True\<rparr>"

text \<open>
  \<open>onConnect\<close> reads \<open>adapter.autoApprove\<close> and \<open>adapter.publicKey\<close> when the event
  arrives: they are its arguments here.
\<close>

definition onConnect :: "bool \<Rightarrow> pubkey option \<Rightarrow> connection_state \<Rightarrow> connection_state" where
  "onConnect adapter_autoApprove adapter_key st =
     (case adapter st of
        None \<Rightarrow> st
      | Some a \<Rightarrow> st\<lparr>connected := True, autoApprove := adapter_autoApprove,
                     publicKey := adapter_key\<rparr>)"

definition onDisconnect :: "connection_state \<Rightarrow> connection_state" where
  "onDisconnect st = reset st"

text \<open>
  The second half of the effect of line 186, which runs on the state \<open>reset\<close> has left.
  Line 189 reads the table (\<open>name ? walletsByName[name] : undefined\<close>, the empty name
  being falsy). Line 190 calls \<open>wallet.adapter()\<close> when the value read is truthy: on a
  wallet the call constructs the adapter or throws what the function throws; on any other
  truthy value it throws a \<open>TypeError\<close>. When line 190 throws, the three setters of lines
  192 to 194 are not reached and the state is the one \<open>reset\<close> has left. The falsy string
  (the empty \<open>url\<close> or \<open>icon\<close> of a wallet that is the prototype) is stored by
  \<open>setWallet\<close> as it is; the cell is only ever tested for truthiness, and holds \<open>None\<close>
  here.
\<close>

definition wire_up ::
  "wallet_descr list \<Rightarrow> connection_state \<Rightarrow> js_exception option \<times> connection_state" where
  "wire_up wallets st =
     (let w = (case name st of
                 None \<Rightarrow> Undefined
               | Some n \<Rightarrow> (if n = [] then Undefined else lookup (walletsByName wallets) n))
      in (case w of
            Undefined \<Rightarrow> (None, st\<lparr>wallet := None, adapter := None, ready := False\<rparr>)
          | StringValue s \<Rightarrow>
              (if s = [] then (None, st\<lparr>wallet := None, adapter := None, ready := False\<rparr>)
               else (Some TypeError, st))
          | NotAWallet \<Rightarrow> (Some TypeError, st)
          | WalletObject w' \<Rightarrow>
              (if w_adapter_throws w' then (Some ThrownByAdapterFunction, st)
               else (None, st\<lparr>wallet := Some w', adapter := Some (AdapterOf (w_name w')),
                               ready := w_ready w'\<rparr>))))"

text \<open>
  The effect \<open>Reset state and set the wallet, adapter, and ready state when the name changes\<close>:
  what it throws, if anything, and the state it leaves.
\<close>

definition name_effect ::
  "wallet_descr list \<Rightarrow> connection_state \<Rightarrow> js_exception option \<times> connection_state" where
  "name_effect wallets st = wire_up wallets (reset st)"

text \<open>
  \<open>setName\<close>: the effect runs when the name has changed. What the effect throws goes to
  React, not to the caller of \<open>setName\<close>, who goes on with the state the effect has left.
\<close>

definition setName :: "wallet_descr list \<Rightarrow> string option \<Rightarrow> connection_state \<Rightarrow> connection_state" where
  "setName wallets selected st =
     (if name st = selected then st else snd (name_effect wallets (st\<lparr>name := selected\<rparr>)))"

section \<open>\<open>WalletProvider\<close>: the calls\<close>

text \<open>
  An asynchronous call runs up to its \<open>await\<close> (\<open>_begin\<close>, ending \<open>StillPending\<close> when
  it waits for the adapter) and goes on when the adapter's promise settles (\<open>_resume\<close>).
\<close>

definition select_begin ::
  "wallet_descr list \<Rightarrow> string option \<Rightarrow> connection_state
     \<Rightarrow> unit outcome \<times> connection_state \<times> effect list" where
  "select_begin wallets selected st =
     (if name st = selected then (Returned (), st, [])
      else (case adapter st of
              Some a \<Rightarrow> (StillPending, st, [AdapterDisconnect])
            | None \<Rightarrow> (Returned (), setName wallets selected st, [])))"

definition select_resume ::
  "wallet_descr list \<Rightarrow> string option \<Rightarrow> unit outcome \<Rightarrow> connection_state
     \<Rightarrow> unit outcome \<times> connection_state" where
  "select_resume wallets selected adapter_result st =
     (case adapter_result of
        Threw e \<Rightarrow> (Threw e, st)
      | _ \<Rightarrow> (Returned (), setName wallets selected st))"

definition connect_begin :: "connection_state \<Rightarrow> unit outcome \<times> connection_state \<times> effect list" where
  "connect_begin st =
     (if connecting st \<or> disconnecting st \<or> connected st then (Returned (), st, [])
      else (case (wallet st, adapter st) of
              (Some w, Some a) \<Rightarrow>
                (if \<not> ready st
                 then (Threw WalletNotReadyError, st,
                       [WindowOpen (w_url w) ''_blank'', OnError WalletNotReadyError])
                 else (StillPending, st\<lparr>connecting := True\<rparr>, [AdapterConnect]))
            | _ \<Rightarrow> (Threw WalletNotSelectedError, st, [OnError WalletNotSelectedError])))"

text \<open>\<open>finally { setConnecting(false); }\<close>: the result of the adapter is passed on.\<close>

definition connect_resume :: "unit outcome \<Rightarrow> connection_state \<Rightarrow> unit outcome \<times> connection_state" where
  "connect_resume adapter_result st = (adapter_result, st\<lparr>connecting := False\<rparr>)"

definition disconnect_begin ::
  "wallet_descr list \<Rightarrow> connection_state \<Rightarrow> unit outcome \<times> connection_state \<times> effect list" where
  "disconnect_begin wallets st =
     (if disconnecting st then (Returned (), st, [])
      else (case adapter st of
              None \<Rightarrow> select_begin wallets None st
            | Some a \<Rightarrow> (StillPending, st\<lparr>disconnecting := True\<rparr>, [AdapterDisconnect])))"

text \<open>\<open>finally { setDisconnecting(false); await select(null); }\<close>, up to the \<open>await\<close> in \<open>select\<close>.\<close>

definition disconnect_resume ::
  "wallet_descr list \<Rightarrow> connection_state \<Rightarrow> unit outcome \<times> connection_state \<times> effect list" where
  "disconnect_resume wallets st = select_begin wallets None (st\<lparr>disconnecting := False\<rparr>)"

text \<open>
  The effect of line 214, with the \<open>autoConnect\<close> property as its first argument, and
  its \<open>finally\<close>; the error of the adapter is dropped.
\<close>

definition autoConnect_begin ::
  "bool \<Rightarrow> connection_state \<Rightarrow> unit outcome \<times> connection_state \<times> effect list" where
  "autoConnect_begin auto st =
     (if auto \<and> adapter st \<noteq> None \<and> ready st
      then (StillPending, st\<lparr>connecting := True\<rparr>, [AdapterConnect])
      else (Returned (), st, []))"

definition autoConnect_resume :: "connection_state \<Rightarrow> unit outcome \<times> connection_state" where
  "autoConnect_resume st = (Returned (), st\<lparr>connecting := False\<rparr>)"

text \<open>
  \<open>sendTransaction\<close>; \<open>adapter_result\<close> is what \<open>adapter.sendTransaction\<close> gives when it
  is called (a signature, or the error it throws).
\<close>

definition sendTransaction ::
  "connection_state \<Rightarrow> transaction \<Rightarrow> string outcome \<Rightarrow> string outcome \<times> effect list" where
  "sendTransaction st tx adapter_result =
     (case adapter st of
        None \<Rightarrow> (Threw WalletNotSelectedError, [OnError WalletNotSelectedError])
      | Some a \<Rightarrow>
          (if \<not> connected st
           then (Threw WalletNotConnectedError, [OnError WalletNotConnectedError])
           else (adapter_result, [AdapterSendTransaction tx])))"

section \<open>Inputs used in the examples\<close>

text \<open>
  A page with the extension injected, a page without it, and a \<open>wallets\<close> property with
  one wallet whose adapter is ready.
\<close>

abbreviation injected_page :: page where
  "injected_page \<equiv> \<lparr>window_defined = True, document_defined = True, document_complete = True,
      window_sollet = Some True, sollet_at_load = Some True\<rparr>"

abbreviation bare_page :: page where
  "bare_page \<equiv> \<lparr>window_defined = True, document_defined = True, document_complete = True,
      window_sollet = None, sollet_at_load = None\<rparr>"

abbreviation sollet_wallets :: "wallet_descr list" where
  "sollet_wallets \<equiv> [\<lparr>w_name = ''Sollet'', w_url = ''https://www.sollet.io'', w_icon = ''sollet.svg'',
       w_adapter_throws = False, w_ready = True\<rparr>]"

section \<open>Facts about the handshake race\<close>

lemma run_race_settled: "settled r \<noteq> None \<Longrightarrow> run_race r evs = r"
  by (cases evs) auto

lemma run_race_append: "run_race r (xs @ ys) = run_race (run_race r xs) ys"
  by (induction xs arbitrary: r) (auto simp: run_race_settled)

text \<open>The first settlement stands: no later event changes the outcome.\<close>

lemma deliver_keeps_settlement: "settled r = Some s \<Longrightarrow> settled (deliver e r) = Some s"
  by (cases e)
     (auto simp: resolve_def reject_def off_connect_def call_original_def
        connect_listener_body_def interval_body_def Let_def
        split: handler.splits timer.splits popup.splits)

text \<open>
  What the \<open>finally\<close> block does give on every settled path: the original
  \<open>handleDisconnect\<close> is back and the poll is no longer active.
\<close>

lemma race_finally_restores:
  "handleDisconnect (rc_wallet (race_finally r)) = Original \<and>
   (\<forall>d. interval (race_finally r) \<noteq> Pending d)"
  by (cases "interval r") (auto simp: race_finally_def)

lemma handshake_cleanup:
  "settled (handshake p w evs) \<noteq> None \<Longrightarrow>
     handleDisconnect (rc_wallet (handshake p w evs)) = Original \<and>
     (\<forall>d. interval (handshake p w evs) \<noteq> Pending d)"
  using race_finally_restores
  by (auto simp: handshake_def Let_def race_finally_def split: if_splits)

lemma deliver_interval: "interval (deliver e r) = interval r"
  by (cases e)
     (auto simp: resolve_def reject_def off_connect_def call_original_def
        connect_listener_body_def interval_body_def Let_def
        split: handler.splits timer.splits popup.splits)

lemma run_race_interval: "interval (run_race r evs) = interval r"
  by (induction evs arbitrary: r) (auto simp: deliver_interval)

lemma deliver_pending_timeout:
  "settled (deliver e r) = None \<Longrightarrow> timeout (deliver e r) = timeout r"
  by (cases e)
     (auto simp: resolve_def reject_def off_connect_def call_original_def
        connect_listener_body_def interval_body_def Let_def
        split: handler.splits timer.splits popup.splits if_splits)

lemma deliver_pending_before: "settled (deliver e r) = None \<Longrightarrow> settled r = None"
  using deliver_keeps_settlement by (cases "settled r") auto

lemma run_race_pending_timeout:
  "settled (run_race r evs) = None \<Longrightarrow> timeout (run_race r evs) = timeout r"
proof (induction evs arbitrary: r)
  case Nil
  then show ?case by simp
next
  case (Cons e evs)
  show ?case
  proof (cases "settled r = None")
    case True
    with Cons.prems have p: "settled (run_race (deliver e r) evs) = None" by simp
    have d: "settled (deliver e r) = None"
    proof (rule ccontr)
      assume n: "settled (deliver e r) \<noteq> None"
      then have "run_race (deliver e r) evs = deliver e r" by (rule run_race_settled)
      with p n show False by simp
    qed
    have "timeout (run_race r (e # evs)) = timeout (run_race (deliver e r) evs)"
      using True by simp
    also have "\<dots> = timeout (deliver e r)" by (rule Cons.IH [OF p])
    also have "\<dots> = timeout r" by (rule deliver_pending_timeout [OF d])
    finally show ?thesis .
  next
    case False
    then have "run_race r (e # evs) = r" by (rule run_race_settled)
    then show ?thesis by simp
  qed
qed

lemma popup_closed_tick:
  "settled r = None \<Longrightarrow> interval r = Pending d \<Longrightarrow>
     settled (deliver (IntervalElapsed PopupClosed) r) = Some (Rejected (IsWalletError WalletWindowClosedError))"
  by (simp add: interval_body_def reject_def)

lemma timeout_tick:
  "settled r = None \<Longrightarrow> timeout r = Pending d \<Longrightarrow>
     settled (deliver TimeoutElapsed r) = Some (Rejected (IsWalletError WalletTimeoutError))"
  by (simp add: reject_def)

lemma settled_race_finally: "settled (race_finally r) = settled r"
  by (simp add: race_finally_def)

lemma settled_handshake: "settled (handshake p w evs) = settled (run_race (start_race p w) evs)"
  by (simp add: handshake_def Let_def settled_race_finally)

lemma no_popup_ticks:
  "settled r = None \<Longrightarrow> interval r = Pending d \<Longrightarrow> count r \<le> 51 \<Longrightarrow>
     settled (run_race r (replicate n (IntervalElapsed NoPopup)))
       = (if 52 \<le> count r + n then Some (Rejected (IsWalletError WalletWindowBlockedError)) else None)"
proof (induction n arbitrary: r)
  case 0
  then show ?case by simp
next
  case (Suc n)
  show ?case
  proof (cases "count r > 50")
    case True
    then have "settled (deliver (IntervalElapsed NoPopup) r)
        = Some (Rejected (IsWalletError WalletWindowBlockedError))"
      using Suc.prems by (simp add: interval_body_def reject_def)
    then show ?thesis using Suc.prems True by (simp add: run_race_settled)
  next
    case False
    then have a: "settled (deliver (IntervalElapsed NoPopup) r) = None"
      and b: "interval (deliver (IntervalElapsed NoPopup) r) = Pending d"
      and c: "count (deliver (IntervalElapsed NoPopup) r) = Suc (count r)"
      using Suc.prems by (simp_all add: interval_body_def)
    from False c have "count (deliver (IntervalElapsed NoPopup) r) \<le> 51" by simp
    from Suc.IH [OF a b this] c Suc.prems show ?thesis by simp
  qed
qed

section \<open>Facts about \<open>connect\<close>, \<open>disconnect\<close> and the provider\<close>

lemma object_not_string: "\<not> is_string (map_option ProviderObject x)"
  by (cases x) auto

lemma chosen_provider_string:
  "is_string (chosen_provider a pg) \<longleftrightarrow> (\<exists>u. priv_provider a = Some (ProviderUrl u) \<and> u \<noteq> [])"
  by (auto simp: chosen_provider_def sollet_seen_def object_not_string
        split: option.splits provider.splits)

lemma connect_finally_cases:
  "connect_finally (out, a, effs) = (out', a', effs') \<Longrightarrow>
     out' = out \<and> effs' = effs \<and> (out \<noteq> StillPending \<longrightarrow> \<not> priv_connecting a')"
  by (cases out) auto

lemma connect_try_threw_no_emit:
  "connect_try a env = (Threw e, a', effs) \<Longrightarrow> emitted effs = []"
  by (auto simp: connect_try_def Let_def split: if_splits option.splits settlement.splits)

lemma emitted_append: "emitted (xs @ ys) = emitted xs @ emitted ys"
  by (induction xs rule: emitted.induct) auto

lemma td_first_event_settles: "td_settled (td_deliver e (start_teardown w)) \<noteq> None"
  by (cases e) (auto simp: start_teardown_def td_resolve_def td_reject_def td_clearTimeout_def Let_def)

lemma run_teardown_settled: "td_settled r \<noteq> None \<Longrightarrow> run_teardown r evs = r"
  by (cases evs) auto

lemma run_teardown_first:
  "run_teardown (start_teardown w) (e # evs) = td_deliver e (start_teardown w)"
proof -
  have "td_settled (start_teardown w) = None" by (simp add: start_teardown_def)
  then have "run_teardown (start_teardown w) (e # evs)
      = run_teardown (td_deliver e (start_teardown w)) evs" by simp
  also have "\<dots> = td_deliver e (start_teardown w)"
    by (rule run_teardown_settled [OF td_first_event_settles])
  finally show ?thesis .
qed

lemma td_rejected_iff:
  "td_settled (td_deliver e (start_teardown w)) = Some (TdRejected m)
     \<longleftrightarrow> e = DisconnectRejected m \<and> m \<noteq> Some ''Wallet disconnected''"
  by (cases e) (auto simp: start_teardown_def td_resolve_def td_reject_def td_clearTimeout_def Let_def)

lemma adapter_ready_connecting [simp]:
  "adapter_ready (a\<lparr>priv_connecting := b\<rparr>) pg = adapter_ready a pg"
  by (simp add: adapter_ready_def)

text \<open>
  The guards of the two \<open>connect\<close> functions: the adapter's returns at once, with no
  effect at all, but leaves \<open>_connecting\<close> false; the provider's returns with the state
  as it was.
\<close>

lemma adapter_connect_busy:
  "adapter_connected a \<or> adapter_connecting a \<Longrightarrow>
     adapter_connect a env = (Returned (), a\<lparr>priv_connecting := False\<rparr>, [])"
  by (auto simp: adapter_connect_def connect_try_def)

lemma connect_begin_busy:
  "connecting st \<or> disconnecting st \<or> connected st \<Longrightarrow> connect_begin st = (Returned (), st, [])"
  by (auto simp: connect_begin_def)

lemma disconnecting_setName:
  "\<not> disconnecting st \<Longrightarrow> \<not> disconnecting (setName ws n st)"
  by (simp add: setName_def name_effect_def wire_up_def reset_def Let_def
        split: looked_up.splits)

lemma disconnecting_select_begin:
  "\<not> disconnecting st \<Longrightarrow> \<not> disconnecting (fst (snd (select_begin ws n st)))"
  by (auto simp: select_begin_def disconnecting_setName split: option.splits)

section \<open>The claims\<close>

text \<open>
  C1. The claim: after the race of \<open>connect()\<close> has settled, every losing branch is
  unregistered on every exit path: the 'connect' listener removed, the poll interval and
  the timeout timer cleared, \<open>handleDisconnect\<close> restored. The code restores
  \<open>handleDisconnect\<close> and clears the interval in its \<open>finally\<close> block
  (\<open>handshake_cleanup\<close>), but the listener and the timeout are handled branch by branch,
  and some branches miss them. Evaluated here: when the 10 s timeout wins, the race ends
  with \<open>WalletTimeoutError\<close> and the 'connect' listener is still registered; when the
  poll finds the popup closed, it ends with \<open>WalletWindowClosedError\<close> and the listener is
  still registered; when the promise of \<open>wallet.connect()\<close> rejects in the extension flow,
  the 10 s timer is still pending after the cleanup, and so it is when the transport calls
  the intercepted \<open>handleDisconnect\<close>.
\<close>

theorem handshake_leaves_listener_and_timer:
  "settled (handshake (Some (ProviderObject True))
      (new_transport (Some (ProviderObject True)) Mainnet) [TimeoutElapsed])
     = Some (Rejected (IsWalletError WalletTimeoutError)) \<and>
   connect_listener (rc_wallet (handshake (Some (ProviderObject True))
      (new_transport (Some (ProviderObject True)) Mainnet) [TimeoutElapsed])) = True \<and>
   settled (handshake (Some (ProviderUrl ''https://www.sollet.io''))
      (new_transport (Some (ProviderUrl ''https://www.sollet.io'')) Mainnet)
      [IntervalElapsed PopupClosed])
     = Some (Rejected (IsWalletError WalletWindowClosedError)) \<and>
   connect_listener (rc_wallet (handshake (Some (ProviderUrl ''https://www.sollet.io''))
      (new_transport (Some (ProviderUrl ''https://www.sollet.io'')) Mainnet)
      [IntervalElapsed PopupClosed])) = True \<and>
   settled (handshake (Some (ProviderObject True))
      (new_transport (Some (ProviderObject True)) Mainnet) [ConnectRejected (Some ''denied'')])
     = Some (Rejected (Foreign (Some ''denied''))) \<and>
   timeout (handshake (Some (ProviderObject True))
      (new_transport (Some (ProviderObject True)) Mainnet) [ConnectRejected (Some ''denied'')])
     = Pending 10000 \<and>
   timeout (handshake (Some (ProviderObject True))
      (new_transport (Some (ProviderObject True)) Mainnet) [TransportDisconnect])
     = Pending 10000"
  by (simp add: handshake_def start_race_def new_transport_def reject_def race_finally_def
        off_connect_def call_original_def interval_body_def)

text \<open>
  C10. With a live session, when the signing call of the transport is fulfilled with
  \<open>null\<close> or \<open>undefined\<close>, \<open>signTransaction\<close> returns the transaction it was given and
  \<open>signAllTransactions\<close> the list it was given.
\<close>

theorem sign_falls_back_to_input:
  "priv_wallet a = Some w \<Longrightarrow>
     fst (adapter_signTransaction a tx (Fulfilled None)) = Returned tx \<and>
     fst (adapter_signAllTransactions a txs (Fulfilled None)) = Returned txs"
  by (simp add: adapter_signTransaction_def adapter_signAllTransactions_def)

theorem sign_falls_back_to_input_witness:
  "priv_wallet ((SolletWalletAdapter None None)
       \<lparr>priv_wallet := Some (new_transport None Mainnet)\<rparr>)
     = Some (new_transport None Mainnet) \<and>
   fst (adapter_signTransaction
          ((SolletWalletAdapter None None)\<lparr>priv_wallet := Some (new_transport None Mainnet)\<rparr>)
          (Transaction 7) (Fulfilled None)) = Returned (Transaction 7) \<and>
   fst (adapter_signAllTransactions
          ((SolletWalletAdapter None None)\<lparr>priv_wallet := Some (new_transport None Mainnet)\<rparr>)
          [Transaction 1, Transaction 2] (Fulfilled None))
     = Returned [Transaction 1, Transaction 2]"
proof -
  have h: "priv_wallet ((SolletWalletAdapter None None)
       \<lparr>priv_wallet := Some (new_transport None Mainnet)\<rparr>)
     = Some (new_transport None Mainnet)"
    by simp
  show ?thesis
    using h sign_falls_back_to_input [OF h, of "Transaction 7" "[Transaction 1, Transaction 2]"]
    by simp
qed

text \<open>
  C4. With a string provider (popup flow) the executor installs a poll of period 100 ms and
  no timeout. While the handshake is pending, a tick that finds a popup reference that is
  closed fails it with \<open>WalletWindowClosedError\<close>. When no popup reference ever appears,
  the handshake is still pending after \<open>n\<close> ticks for \<open>n < 52\<close> and has failed with
  \<open>WalletWindowBlockedError\<close> from the 52nd tick on (the tick at 5.2 s: the counter must
  exceed 50). With any other provider (extension flow) the executor installs one timer of
  10000 ms and no poll, whatever happens later, and when the timer fires on a pending
  handshake it fails with \<open>WalletTimeoutError\<close>.
\<close>

theorem handshake_probes:
  "interval (start_race (Some (ProviderUrl u)) w) = Pending 100 \<and>
   timeout (start_race (Some (ProviderUrl u)) w) = Unset \<and>
   (settled (handshake (Some (ProviderUrl u)) w evs) = None \<longrightarrow>
      settled (handshake (Some (ProviderUrl u)) w (evs @ [IntervalElapsed PopupClosed]))
        = Some (Rejected (IsWalletError WalletWindowClosedError))) \<and>
   settled (handshake (Some (ProviderUrl u)) w (replicate n (IntervalElapsed NoPopup)))
     = (if 52 \<le> n then Some (Rejected (IsWalletError WalletWindowBlockedError)) else None) \<and>
   (\<not> is_string p \<longrightarrow>
      timeout (start_race p w') = Pending 10000 \<and>
      interval (run_race (start_race p w') evs') = Unset \<and>
      (settled (handshake p w' evs') = None \<longrightarrow>
         settled (handshake p w' (evs' @ [TimeoutElapsed]))
           = Some (Rejected (IsWalletError WalletTimeoutError))))"
proof -
  let ?s = "start_race (Some (ProviderUrl u)) w"
  have s1: "interval ?s = Pending 100" and s2: "timeout ?s = Unset"
    and s3: "settled ?s = None" and s4: "count ?s = 0"
    by (simp_all add: start_race_def)
  have closed: "settled (handshake (Some (ProviderUrl u)) w (evs @ [IntervalElapsed PopupClosed]))
        = Some (Rejected (IsWalletError WalletWindowClosedError))"
    if "settled (handshake (Some (ProviderUrl u)) w evs) = None"
  proof -
    from that have p: "settled (run_race ?s evs) = None" by (simp add: settled_handshake)
    have "interval (run_race ?s evs) = Pending 100" by (simp add: run_race_interval s1)
    with p show ?thesis
      by (simp add: settled_handshake run_race_append interval_body_def reject_def)
  qed
  have blocked: "settled (handshake (Some (ProviderUrl u)) w (replicate n (IntervalElapsed NoPopup)))
     = (if 52 \<le> n then Some (Rejected (IsWalletError WalletWindowBlockedError)) else None)"
    using no_popup_ticks [OF s3 s1, of n] by (simp add: settled_handshake s4)
  have ext: "timeout (start_race p w') = Pending 10000 \<and>
      interval (run_race (start_race p w') evs') = Unset \<and>
      (settled (handshake p w' evs') = None \<longrightarrow>
         settled (handshake p w' (evs' @ [TimeoutElapsed]))
           = Some (Rejected (IsWalletError WalletTimeoutError)))" if np: "\<not> is_string p"
  proof -
    have t: "timeout (start_race p w') = Pending 10000" and i: "interval (start_race p w') = Unset"
      using np by (simp_all add: start_race_def)
    have "settled (handshake p w' (evs' @ [TimeoutElapsed]))
           = Some (Rejected (IsWalletError WalletTimeoutError))"
      if "settled (handshake p w' evs') = None"
    proof -
      from that have q: "settled (run_race (start_race p w') evs') = None"
        by (simp add: settled_handshake)
      then have "timeout (run_race (start_race p w') evs') = Pending 10000"
        using run_race_pending_timeout t by simp
      with q show ?thesis by (simp add: settled_handshake run_race_append reject_def)
    qed
    with t i show ?thesis by (simp add: run_race_interval)
  qed
  from s1 s2 closed blocked ext show ?thesis by blast
qed

theorem handshake_probes_witness:
  "settled (handshake (Some (ProviderUrl ''https://www.sollet.io''))
      (new_transport (Some (ProviderUrl ''https://www.sollet.io'')) Mainnet)
      [IntervalElapsed PopupOpen]) = None \<and>
   settled (handshake (Some (ProviderUrl ''https://www.sollet.io''))
      (new_transport (Some (ProviderUrl ''https://www.sollet.io'')) Mainnet)
      [IntervalElapsed PopupOpen, IntervalElapsed PopupClosed])
     = Some (Rejected (IsWalletError WalletWindowClosedError)) \<and>
   settled (handshake (Some (ProviderUrl ''https://www.sollet.io''))
      (new_transport (Some (ProviderUrl ''https://www.sollet.io'')) Mainnet)
      (replicate 52 (IntervalElapsed NoPopup)))
     = Some (Rejected (IsWalletError WalletWindowBlockedError)) \<and>
   \<not> is_string (Some (ProviderObject True)) \<and>
   settled (handshake (Some (ProviderObject True))
      (new_transport (Some (ProviderObject True)) Mainnet)
      [IntervalElapsed PopupOpen]) = None \<and>
   settled (handshake (Some (ProviderObject True))
      (new_transport (Some (ProviderObject True)) Mainnet)
      [IntervalElapsed PopupOpen, TimeoutElapsed])
     = Some (Rejected (IsWalletError WalletTimeoutError))"
proof -
  have a: "settled (handshake (Some (ProviderUrl ''https://www.sollet.io''))
      (new_transport (Some (ProviderUrl ''https://www.sollet.io'')) Mainnet)
      [IntervalElapsed PopupOpen]) = None"
    by (simp add: handshake_def start_race_def interval_body_def)
  have b: "\<not> is_string (Some (ProviderObject True))"
    by simp
  have c: "settled (handshake (Some (ProviderObject True))
      (new_transport (Some (ProviderObject True)) Mainnet)
      [IntervalElapsed PopupOpen]) = None"
    by (simp add: handshake_def start_race_def)
  show ?thesis
    using a b c
      handshake_probes [of "''https://www.sollet.io''"
        "new_transport (Some (ProviderUrl ''https://www.sollet.io'')) Mainnet"
        "[IntervalElapsed PopupOpen]" 52 "Some (ProviderObject True)"
        "new_transport (Some (ProviderObject True)) Mainnet" "[IntervalElapsed PopupOpen]"]
    by simp
qed

text \<open>
  C9. Whenever \<open>connect()\<close> of the adapter leaves (its promise is settled),
  \<open>_connecting\<close> is false in the state it leaves behind; and when it throws \<open>e\<close>, the last
  thing it did was to emit the event 'error' with \<open>e\<close>, the only event of the call.
\<close>

theorem connect_error_event_and_cleanup:
  "adapter_connect a env = (out, a', effs) \<Longrightarrow>
     (out \<noteq> StillPending \<longrightarrow> \<not> priv_connecting a') \<and>
     (\<forall>e. out = Threw e \<longrightarrow>
        effs \<noteq> [] \<and> last effs = Emit (EvError e) \<and> emitted effs = [EvError e])"
proof -
  assume h: "adapter_connect a env = (out, a', effs)"
  obtain o1 a1 e1 where t: "connect_try a env = (o1, a1, e1)"
    by (cases "connect_try a env") auto
  obtain o2 a2 e2 where c: "connect_catch (o1, a1, e1) = (o2, a2, e2)"
    by (cases "connect_catch (o1, a1, e1)") auto
  from h t c have f: "connect_finally (o2, a2, e2) = (out, a', effs)"
    by (simp add: adapter_connect_def)
  from connect_finally_cases [OF f]
  have eq: "out = o2" "effs = e2" and fl: "out \<noteq> StillPending \<longrightarrow> \<not> priv_connecting a'"
    by auto
  have "effs \<noteq> [] \<and> last effs = Emit (EvError e) \<and> emitted effs = [EvError e]"
    if "out = Threw e" for e
  proof -
    from that eq c have o1: "o1 = Threw e" and e2: "e2 = e1 @ [Emit (EvError e)]"
      by (cases o1; auto)+
    from t o1 have "emitted e1 = []" by (auto dest: connect_try_threw_no_emit)
    with e2 eq show ?thesis by (simp add: emitted_append)
  qed
  with fl show ?thesis by blast
qed


theorem connect_error_event_and_cleanup_witness:
  "adapter_connect (SolletWalletAdapter None None)
      \<lparr>ce_page = injected_page, import_fails = None, construct_fails = None,
       ce_events = [TimeoutElapsed]\<rparr>
     = (Threw WalletTimeoutError, SolletWalletAdapter None None,
        [ImportTransport, NewTransport (Some (ProviderObject True)) Mainnet,
         TransportConnectCall, Emit (EvError WalletTimeoutError)]) \<and>
   \<not> priv_connecting (SolletWalletAdapter None None) \<and>
   last [ImportTransport, NewTransport (Some (ProviderObject True)) Mainnet,
         TransportConnectCall, Emit (EvError WalletTimeoutError)]
     = Emit (EvError WalletTimeoutError) \<and>
   emitted [ImportTransport, NewTransport (Some (ProviderObject True)) Mainnet,
         TransportConnectCall, Emit (EvError WalletTimeoutError)]
     = [EvError WalletTimeoutError]"
proof -
  have h: "adapter_connect (SolletWalletAdapter None None)
      \<lparr>ce_page = injected_page, import_fails = None, construct_fails = None,
       ce_events = [TimeoutElapsed]\<rparr>
     = (Threw WalletTimeoutError, SolletWalletAdapter None None,
        [ImportTransport, NewTransport (Some (ProviderObject True)) Mainnet,
         TransportConnectCall, Emit (EvError WalletTimeoutError)])"
    by (simp add: adapter_connect_def connect_try_def SolletWalletAdapter_def
          adapter_connected_def adapter_connecting_def adapter_ready_def chosen_provider_def
          sollet_seen_def handshake_def start_race_def new_transport_def reject_def
          race_finally_def)
  show ?thesis
    using h connect_error_event_and_cleanup [OF h] by simp
qed

text \<open>
  C3. \<open>disconnect()\<close> of the adapter. Without a live session it changes nothing, emits
  'disconnect' and returns. With one, the state at the \<open>await\<close> (no teardown event yet)
  already has \<open>_wallet\<close> null. When the promise of \<open>wallet.disconnect()\<close> is the first to
  settle the teardown and rejects with a message other than 'Wallet disconnected', the
  call emits 'error' with \<open>WalletDisconnectionError\<close>, then 'disconnect', and returns.
  In every case, once a teardown event has occurred (the 250 ms timer is one of them, so
  the list of events cannot stay empty), the call returns without throwing, the session is
  null, and exactly one 'disconnect' event has been emitted, as the last thing done.
\<close>

theorem disconnect_contract:
  "(priv_wallet a = None \<longrightarrow> adapter_disconnect a evs = (Returned (), a, [Emit EvDisconnect])) \<and>
   (priv_wallet a \<noteq> None \<longrightarrow>
      adapter_disconnect a [] = (StillPending, a\<lparr>priv_wallet := None\<rparr>, [TransportDisconnectCall])) \<and>
   (priv_wallet a \<noteq> None \<and> m \<noteq> Some ''Wallet disconnected'' \<longrightarrow>
      adapter_disconnect a (DisconnectRejected m # evs)
        = (Returned (), a\<lparr>priv_wallet := None\<rparr>,
           [TransportDisconnectCall, Emit (EvError (WalletDisconnectionError m)),
            Emit EvDisconnect])) \<and>
   (priv_wallet a = None \<or> evs \<noteq> [] \<longrightarrow>
      fst (adapter_disconnect a evs) = Returned () \<and>
      priv_wallet (fst (snd (adapter_disconnect a evs))) = None \<and>
      last (snd (snd (adapter_disconnect a evs))) = Emit EvDisconnect \<and>
      count_list (emitted (snd (snd (adapter_disconnect a evs)))) EvDisconnect = 1)"
proof -
  have none: "adapter_disconnect a evs = (Returned (), a, [Emit EvDisconnect])"
    if "priv_wallet a = None"
    using that by (simp add: adapter_disconnect_def)
  have pend: "adapter_disconnect a [] = (StillPending, a\<lparr>priv_wallet := None\<rparr>, [TransportDisconnectCall])"
    if "priv_wallet a \<noteq> None"
    using that by (auto simp: adapter_disconnect_def start_teardown_def)
  have rej: "adapter_disconnect a (DisconnectRejected m # evs)
        = (Returned (), a\<lparr>priv_wallet := None\<rparr>,
           [TransportDisconnectCall, Emit (EvError (WalletDisconnectionError m)),
            Emit EvDisconnect])"
    if "priv_wallet a \<noteq> None" "m \<noteq> Some ''Wallet disconnected''"
  proof -
    from that obtain w where w: "priv_wallet a = Some w" by auto
    have "td_settled (td_deliver (DisconnectRejected m)
            (start_teardown (w\<lparr>disconnect_listener := False\<rparr>))) = Some (TdRejected m)"
      using that(2) td_rejected_iff by blast
    then show ?thesis
      using w by (simp add: adapter_disconnect_def run_teardown_first Let_def del: td_deliver.simps run_teardown.simps)
  qed
  have fin: "fst (adapter_disconnect a evs) = Returned () \<and>
      priv_wallet (fst (snd (adapter_disconnect a evs))) = None \<and>
      last (snd (snd (adapter_disconnect a evs))) = Emit EvDisconnect \<and>
      count_list (emitted (snd (snd (adapter_disconnect a evs)))) EvDisconnect = 1"
    if "priv_wallet a = None \<or> evs \<noteq> []"
  proof (cases "priv_wallet a")
    case None
    then show ?thesis by (simp add: none)
  next
    case (Some w)
    with that obtain e es where evs: "evs = e # es" by (cases evs) auto
    let ?r = "td_deliver e (start_teardown (w\<lparr>disconnect_listener := False\<rparr>))"
    have "td_settled ?r \<noteq> None" by (rule td_first_event_settles)
    then obtain s where s: "td_settled ?r = Some s" by blast
    show ?thesis
      using Some evs s
      by (cases s) (simp_all add: adapter_disconnect_def run_teardown_first Let_def del: td_deliver.simps run_teardown.simps)
  qed
  from none pend rej fin show ?thesis by blast
qed

theorem disconnect_contract_witness:
  "priv_wallet ((SolletWalletAdapter None None)
       \<lparr>priv_wallet := Some (new_transport None Mainnet)\<rparr>) \<noteq> None \<and>
   Some ''popup gone'' \<noteq> Some ''Wallet disconnected'' \<and>
   [GraceElapsed] \<noteq> [] \<and>
   adapter_disconnect
      ((SolletWalletAdapter None None)\<lparr>priv_wallet := Some (new_transport None Mainnet)\<rparr>) []
     = (StillPending, SolletWalletAdapter None None, [TransportDisconnectCall]) \<and>
   adapter_disconnect
      ((SolletWalletAdapter None None)\<lparr>priv_wallet := Some (new_transport None Mainnet)\<rparr>)
      [DisconnectRejected (Some ''popup gone''), GraceElapsed]
     = (Returned (), SolletWalletAdapter None None,
        [TransportDisconnectCall,
         Emit (EvError (WalletDisconnectionError (Some ''popup gone''))), Emit EvDisconnect]) \<and>
   fst (adapter_disconnect
      ((SolletWalletAdapter None None)\<lparr>priv_wallet := Some (new_transport None Mainnet)\<rparr>)
      [GraceElapsed]) = Returned () \<and>
   count_list (emitted (snd (snd (adapter_disconnect
      ((SolletWalletAdapter None None)\<lparr>priv_wallet := Some (new_transport None Mainnet)\<rparr>)
      [GraceElapsed])))) EvDisconnect = 1"
proof -
  have a: "priv_wallet ((SolletWalletAdapter None None)
       \<lparr>priv_wallet := Some (new_transport None Mainnet)\<rparr>) \<noteq> None"
    by simp
  have b: "Some ''popup gone'' \<noteq> Some ''Wallet disconnected''"
    by simp
  have c: "[GraceElapsed] \<noteq> []"
    by simp
  have d: "(SolletWalletAdapter None None)\<lparr>priv_wallet := Some (new_transport None Mainnet),
       priv_wallet := None\<rparr> = SolletWalletAdapter None None"
    by (simp add: SolletWalletAdapter_def)
  show ?thesis
    using a b c d
      disconnect_contract [of
        "(SolletWalletAdapter None None)\<lparr>priv_wallet := Some (new_transport None Mainnet)\<rparr>"
        "[GraceElapsed]" "Some ''popup gone''"]
    by simp
qed

text \<open>
  C8. The claim: a call of \<open>connect()\<close> while the adapter is connecting is a no-op that
  prevents a second session. Evaluated here: a first call on an idle adapter is left
  pending in its handshake, with \<open>_connecting\<close> true and one transport constructed; a
  second call then returns at once and touches no transport, but its \<open>finally\<close> block
  clears \<open>_connecting\<close>, so the adapter is back in the idle state of the first line while
  the first handshake is still pending. A further call on that state is the first line
  again: it constructs a second transport and calls its \<open>connect()\<close>.
\<close>

theorem second_connect_clears_connecting:
  "adapter_connect (SolletWalletAdapter None None)
      \<lparr>ce_page = injected_page, import_fails = None, construct_fails = None, ce_events = []\<rparr>
     = (StillPending, (SolletWalletAdapter None None)\<lparr>priv_connecting := True\<rparr>,
        [ImportTransport, NewTransport (Some (ProviderObject True)) Mainnet,
         TransportConnectCall]) \<and>
   adapter_connect ((SolletWalletAdapter None None)\<lparr>priv_connecting := True\<rparr>)
      \<lparr>ce_page = injected_page, import_fails = None, construct_fails = None, ce_events = []\<rparr>
     = (Returned (), SolletWalletAdapter None None, [])"
  by (simp add: adapter_connect_def connect_try_def SolletWalletAdapter_def adapter_connected_def
        adapter_connecting_def adapter_ready_def chosen_provider_def sollet_seen_def
        handshake_def start_race_def new_transport_def)

text \<open>
  C5, as the claim states it, fails: \<open>connect()\<close> of the adapter, in a page where the
  readiness check is false, throws \<open>WalletNotReadyError\<close> and opens no window.
\<close>

theorem adapter_connect_opens_nothing:
  "adapter_ready (SolletWalletAdapter None None) bare_page = False \<and>
   fst (adapter_connect (SolletWalletAdapter None None)
      \<lparr>ce_page = bare_page, import_fails = None, construct_fails = None, ce_events = []\<rparr>)
     = Threw WalletNotReadyError \<and>
   opened (snd (snd (adapter_connect (SolletWalletAdapter None None)
      \<lparr>ce_page = bare_page, import_fails = None, construct_fails = None, ce_events = []\<rparr>)))
     = []"
  by (simp add: adapter_connect_def connect_try_def SolletWalletAdapter_def adapter_connected_def
        adapter_connecting_def adapter_ready_def)

text \<open>
  C5, amended. \<open>connect()\<close> of an idle adapter whose readiness check is false throws
  \<open>WalletNotReadyError\<close>, having emitted it as an 'error' event and nothing else, and leaves
  the adapter as it was. The help URL is opened by \<open>connect()\<close> of the provider
  component: with a wallet selected, no call in progress and \<open>ready\<close> false, it opens
  \<open>wallet.url\<close> in a new browsing context, reports \<open>WalletNotReadyError\<close> to \<open>onError\<close>
  and throws it, without calling the adapter and without changing the state.
\<close>

theorem not_ready_connect:
  "(\<not> adapter_connected a \<and> \<not> adapter_connecting a \<and> \<not> adapter_ready a (ce_page env) \<longrightarrow>
      adapter_connect a env = (Threw WalletNotReadyError, a, [Emit (EvError WalletNotReadyError)])) \<and>
   (wallet st = Some w \<and> adapter st = Some ad \<and> \<not> connecting st \<and> \<not> disconnecting st \<and>
    \<not> connected st \<and> \<not> ready st \<longrightarrow>
      connect_begin st
        = (Threw WalletNotReadyError, st,
           [WindowOpen (w_url w) ''_blank'', OnError WalletNotReadyError]))"
  by (auto simp: adapter_connect_def connect_try_def adapter_connecting_def connect_begin_def)

theorem not_ready_connect_witness:
  "\<not> adapter_connected (SolletWalletAdapter None None) \<and>
   \<not> adapter_connecting (SolletWalletAdapter None None) \<and>
   \<not> adapter_ready (SolletWalletAdapter None None) bare_page \<and>
   adapter_connect (SolletWalletAdapter None None)
      \<lparr>ce_page = bare_page, import_fails = None, construct_fails = None, ce_events = []\<rparr>
     = (Threw WalletNotReadyError, SolletWalletAdapter None None,
        [Emit (EvError WalletNotReadyError)]) \<and>
   connect_begin
      ((initial_state (Some ''Sollet''))
         \<lparr>wallet := Some \<lparr>w_name = ''Sollet'', w_url = ''https://www.sollet.io'',
                 w_icon = ''sollet.svg'', w_adapter_throws = False, w_ready = False\<rparr>,
          adapter := Some (AdapterOf ''Sollet'')\<rparr>)
     = (Threw WalletNotReadyError,
        (initial_state (Some ''Sollet''))
         \<lparr>wallet := Some \<lparr>w_name = ''Sollet'', w_url = ''https://www.sollet.io'',
                 w_icon = ''sollet.svg'', w_adapter_throws = False, w_ready = False\<rparr>,
          adapter := Some (AdapterOf ''Sollet'')\<rparr>,
        [WindowOpen ''https://www.sollet.io'' ''_blank'', OnError WalletNotReadyError])"
proof -
  have a: "\<not> adapter_connected (SolletWalletAdapter None None) \<and>
      \<not> adapter_connecting (SolletWalletAdapter None None) \<and>
      \<not> adapter_ready (SolletWalletAdapter None None) bare_page"
    by (simp add: SolletWalletAdapter_def adapter_connected_def adapter_connecting_def
          adapter_ready_def)
  show ?thesis
    using a
      not_ready_connect [of "SolletWalletAdapter None None"
        "\<lparr>ce_page = bare_page, import_fails = None, construct_fails = None, ce_events = []\<rparr>"
        "(initial_state (Some ''Sollet''))
           \<lparr>wallet := Some \<lparr>w_name = ''Sollet'', w_url = ''https://www.sollet.io'',
                 w_icon = ''sollet.svg'', w_adapter_throws = False, w_ready = False\<rparr>,
            adapter := Some (AdapterOf ''Sollet'')\<rparr>"
        "\<lparr>w_name = ''Sollet'', w_url = ''https://www.sollet.io'',
                 w_icon = ''sollet.svg'', w_adapter_throws = False, w_ready = False\<rparr>"
        "AdapterOf ''Sollet''"]
    by (simp add: initial_state_def)
qed

text \<open>
  C2, as the claim states it, fails. From the initial state the wallet ''Sollet'' is
  selected, \<open>connect()\<close> is called and waits for the adapter (\<open>connecting\<close> is true), and
  \<open>disconnect()\<close> is called: it waits for the adapter too, and in the state it has left
  \<open>connecting\<close> and \<open>disconnecting\<close> are both true.
\<close>

theorem connecting_and_disconnecting_together:
  "fst (connect_begin (setName sollet_wallets (Some ''Sollet'') (initial_state None)))
     = StillPending \<and>
   fst (disconnect_begin sollet_wallets
       (fst (snd (connect_begin (setName sollet_wallets (Some ''Sollet'') (initial_state None))))))
     = StillPending \<and>
   connecting (fst (snd (disconnect_begin sollet_wallets
       (fst (snd (connect_begin (setName sollet_wallets (Some ''Sollet'') (initial_state None)))))))) \<and>
   disconnecting (fst (snd (disconnect_begin sollet_wallets
       (fst (snd (connect_begin (setName sollet_wallets (Some ''Sollet'') (initial_state None))))))))"
  by (simp add: disconnect_begin_def connect_begin_def setName_def name_effect_def wire_up_def
        reset_def initial_state_def walletsByName_def assign_def lookup_def)

text \<open>
  C2, amended. \<open>connect()\<close> does nothing while \<open>disconnecting\<close> is true, so it never raises
  \<open>connecting\<close> during a disconnect. \<open>disconnect()\<close> looks at \<open>disconnecting\<close> only: called
  with an adapter selected while \<open>connecting\<close> is true, it sets \<open>disconnecting\<close> and calls
  the adapter, and both flags are true. They are cleared by the reset that the adapter's
  'disconnect' event triggers, and each call clears its own flag when it resumes after the
  adapter (\<open>finally\<close>).
\<close>

theorem flags_guarded_and_cleared:
  "(disconnecting st1 \<longrightarrow> connect_begin st1 = (Returned (), st1, [])) \<and>
   (connecting st2 \<and> \<not> disconnecting st2 \<and> adapter st2 = Some ad \<longrightarrow>
      disconnect_begin ws st2 = (StillPending, st2\<lparr>disconnecting := True\<rparr>, [AdapterDisconnect]) \<and>
      connecting (st2\<lparr>disconnecting := True\<rparr>) \<and> disconnecting (st2\<lparr>disconnecting := True\<rparr>)) \<and>
   \<not> connecting (onDisconnect st) \<and> \<not> disconnecting (onDisconnect st) \<and>
   \<not> connecting (snd (connect_resume res st)) \<and>
   \<not> disconnecting (fst (snd (disconnect_resume ws st)))"
  by (simp add: connect_begin_def disconnect_begin_def onDisconnect_def reset_def
        connect_resume_def disconnect_resume_def disconnecting_select_begin)

theorem flags_guarded_and_cleared_witness:
  "disconnecting ((initial_state None)\<lparr>disconnecting := True\<rparr>) \<and>
   connect_begin ((initial_state None)\<lparr>disconnecting := True\<rparr>)
     = (Returned (), (initial_state None)\<lparr>disconnecting := True\<rparr>, []) \<and>
   connecting ((setName sollet_wallets (Some ''Sollet'') (initial_state None))\<lparr>connecting := True\<rparr>) \<and>
   \<not> disconnecting ((setName sollet_wallets (Some ''Sollet'') (initial_state None))\<lparr>connecting := True\<rparr>) \<and>
   adapter ((setName sollet_wallets (Some ''Sollet'') (initial_state None))\<lparr>connecting := True\<rparr>)
     = Some (AdapterOf ''Sollet'') \<and>
   disconnect_begin sollet_wallets
      ((setName sollet_wallets (Some ''Sollet'') (initial_state None))\<lparr>connecting := True\<rparr>)
     = (StillPending,
        (setName sollet_wallets (Some ''Sollet'') (initial_state None))
          \<lparr>connecting := True, disconnecting := True\<rparr>,
        [AdapterDisconnect])"
proof -
  have a: "disconnecting ((initial_state None)\<lparr>disconnecting := True\<rparr>)"
    by simp
  have b: "connecting ((setName sollet_wallets (Some ''Sollet'') (initial_state None))\<lparr>connecting := True\<rparr>) \<and>
      \<not> disconnecting ((setName sollet_wallets (Some ''Sollet'') (initial_state None))\<lparr>connecting := True\<rparr>) \<and>
      adapter ((setName sollet_wallets (Some ''Sollet'') (initial_state None))\<lparr>connecting := True\<rparr>)
        = Some (AdapterOf ''Sollet'')"
    by (simp add: setName_def name_effect_def wire_up_def reset_def initial_state_def
          walletsByName_def assign_def lookup_def)
  show ?thesis
    using a b
      flags_guarded_and_cleared [of "(initial_state None)\<lparr>disconnecting := True\<rparr>"
        "(setName sollet_wallets (Some ''Sollet'') (initial_state None))\<lparr>connecting := True\<rparr>"
        "AdapterOf ''Sollet''" sollet_wallets]
    by simp
qed

text \<open>
  C6. With an adapter selected and \<open>connected\<close> false, \<open>sendTransaction\<close> reports
  \<open>WalletNotConnectedError\<close> to \<open>onError\<close> and throws it; that report is all it does, so
  \<open>adapter.sendTransaction\<close> is not called, whatever it would have answered.
\<close>

theorem sendTransaction_requires_connected:
  "adapter st = Some ad \<Longrightarrow> \<not> connected st \<Longrightarrow>
     sendTransaction st tx adapter_result
       = (Threw WalletNotConnectedError, [OnError WalletNotConnectedError])"
  by (simp add: sendTransaction_def)

theorem sendTransaction_requires_connected_witness:
  "adapter (setName sollet_wallets (Some ''Sollet'') (initial_state None))
     = Some (AdapterOf ''Sollet'') \<and>
   \<not> connected (setName sollet_wallets (Some ''Sollet'') (initial_state None)) \<and>
   sendTransaction (setName sollet_wallets (Some ''Sollet'') (initial_state None))
      (Transaction 1) (Returned ''signature'')
     = (Threw WalletNotConnectedError, [OnError WalletNotConnectedError])"
proof -
  have a: "adapter (setName sollet_wallets (Some ''Sollet'') (initial_state None))
     = Some (AdapterOf ''Sollet'')"
    and b: "\<not> connected (setName sollet_wallets (Some ''Sollet'') (initial_state None))"
    by (simp_all add: setName_def name_effect_def wire_up_def reset_def initial_state_def
          walletsByName_def assign_def lookup_def)
  show ?thesis
    using a b sendTransaction_requires_connected [OF a b, of "Transaction 1" "Returned ''signature''"]
    by simp
qed

text \<open>
  C7. The effect that runs when the name changes calls \<open>reset\<close> first, after which the six
  fields have their initial values. Whatever the name, the wallets and the state before,
  the five fields other than \<open>ready\<close> have their initial values in the state the effect
  leaves. When the effect throws at line 190 (the table gives a truthy value that is no
  wallet, or the function \<open>adapter\<close> of the wallet throws), the state it leaves is exactly
  the one \<open>reset\<close> has left: the reset has happened before the adapter is constructed
  (the cells \<open>wallet\<close> and \<open>adapter\<close>, which are not among the six, keep what they held).
  When it completes, \<open>ready\<close> is the readiness of the new adapter (false without one).
  What it throws and the \<open>ready\<close> it leaves are the same as from the initial state with the
  same name, and when it completes so is the whole state: no field value of the state
  before is left.
\<close>

theorem name_change_resets_state:
  "ready (reset st) = False \<and> connecting (reset st) = False \<and> disconnecting (reset st) = False \<and>
   connected (reset st) = False \<and> autoApprove (reset st) = False \<and> publicKey (reset st) = None \<and>
   connecting (snd (name_effect ws st)) = False \<and>
   disconnecting (snd (name_effect ws st)) = False \<and>
   connected (snd (name_effect ws st)) = False \<and>
   autoApprove (snd (name_effect ws st)) = False \<and>
   publicKey (snd (name_effect ws st)) = None \<and>
   (fst (name_effect ws st) \<noteq> None \<longrightarrow> snd (name_effect ws st) = reset st) \<and>
   (fst (name_effect ws st) = None \<longrightarrow>
      ready (snd (name_effect ws st))
        = (case wallet (snd (name_effect ws st)) of None \<Rightarrow> False | Some w \<Rightarrow> w_ready w)) \<and>
   fst (name_effect ws st) = fst (name_effect ws (initial_state (name st))) \<and>
   ready (snd (name_effect ws st)) = ready (snd (name_effect ws (initial_state (name st)))) \<and>
   (fst (name_effect ws st) = None \<longrightarrow>
      snd (name_effect ws st) = snd (name_effect ws (initial_state (name st))))"
  by (cases st)
     (simp add: reset_def name_effect_def wire_up_def initial_state_def Let_def
        split: looked_up.splits option.splits)

theorem name_change_resets_state_witness:
  "name_effect sollet_wallets
      \<lparr>name = Some ''constructor'',
       wallet = Some \<lparr>w_name = ''Phantom'', w_url = ''https://phantom.app'',
                w_icon = ''phantom.svg'', w_adapter_throws = False, w_ready = True\<rparr>,
       adapter = Some (AdapterOf ''Phantom''),
       ready = True, connecting = False, disconnecting = False, connected = True,
       autoApprove = True, publicKey = Some ''previous key''\<rparr>
     = (Some TypeError,
      \<lparr>name = Some ''constructor'',
       wallet = Some \<lparr>w_name = ''Phantom'', w_url = ''https://phantom.app'',
                w_icon = ''phantom.svg'', w_adapter_throws = False, w_ready = True\<rparr>,
       adapter = Some (AdapterOf ''Phantom''),
       ready = False, connecting = False, disconnecting = False, connected = False,
       autoApprove = False, publicKey = None\<rparr>) \<and>
   name_effect sollet_wallets
      \<lparr>name = Some ''Sollet'',
       wallet = Some \<lparr>w_name = ''Phantom'', w_url = ''https://phantom.app'',
                w_icon = ''phantom.svg'', w_adapter_throws = False, w_ready = True\<rparr>,
       adapter = Some (AdapterOf ''Phantom''),
       ready = True, connecting = False, disconnecting = False, connected = True,
       autoApprove = True, publicKey = Some ''previous key''\<rparr>
     = (None,
      \<lparr>name = Some ''Sollet'',
       wallet = Some \<lparr>w_name = ''Sollet'', w_url = ''https://www.sollet.io'',
                w_icon = ''sollet.svg'', w_adapter_throws = False, w_ready = True\<rparr>,
       adapter = Some (AdapterOf ''Sollet''),
       ready = True, connecting = False, disconnecting = False, connected = False,
       autoApprove = False, publicKey = None\<rparr>)"
proof -
  let ?thrown = "\<lparr>name = Some ''constructor'',
       wallet = Some \<lparr>w_name = ''Phantom'', w_url = ''https://phantom.app'',
                w_icon = ''phantom.svg'', w_adapter_throws = False, w_ready = True\<rparr>,
       adapter = Some (AdapterOf ''Phantom''),
       ready = True, connecting = False, disconnecting = False, connected = True,
       autoApprove = True, publicKey = Some ''previous key''\<rparr>"
  let ?wired = "\<lparr>name = Some ''Sollet'',
       wallet = Some \<lparr>w_name = ''Phantom'', w_url = ''https://phantom.app'',
                w_icon = ''phantom.svg'', w_adapter_throws = False, w_ready = True\<rparr>,
       adapter = Some (AdapterOf ''Phantom''),
       ready = True, connecting = False, disconnecting = False, connected = True,
       autoApprove = True, publicKey = Some ''previous key''\<rparr>"
  have a: "fst (name_effect sollet_wallets ?thrown) = Some TypeError"
    by (simp add: name_effect_def wire_up_def reset_def walletsByName_def assign_def lookup_def
          from_object_prototype_def object_prototype_names_def)
  have b: "fst (name_effect sollet_wallets ?wired) = None"
    by (simp add: name_effect_def wire_up_def reset_def walletsByName_def assign_def lookup_def)
  have c: "snd (name_effect sollet_wallets (initial_state (Some ''Sollet'')))
      = \<lparr>name = Some ''Sollet'',
       wallet = Some \<lparr>w_name = ''Sollet'', w_url = ''https://www.sollet.io'',
                w_icon = ''sollet.svg'', w_adapter_throws = False, w_ready = True\<rparr>,
       adapter = Some (AdapterOf ''Sollet''),
       ready = True, connecting = False, disconnecting = False, connected = False,
       autoApprove = False, publicKey = None\<rparr>"
    by (simp add: name_effect_def wire_up_def reset_def initial_state_def walletsByName_def
          assign_def lookup_def)
  have d: "snd (name_effect sollet_wallets ?thrown) = reset ?thrown"
    using a name_change_resets_state [of ?thrown sollet_wallets] by simp
  have e: "snd (name_effect sollet_wallets ?wired)
      = snd (name_effect sollet_wallets (initial_state (Some ''Sollet'')))"
    using b name_change_resets_state [of ?wired sollet_wallets] by simp
  from a d have "name_effect sollet_wallets ?thrown = (Some TypeError, reset ?thrown)"
    by (simp add: prod_eq_iff)
  moreover from b e c have "name_effect sollet_wallets ?wired
      = (None, \<lparr>name = Some ''Sollet'',
       wallet = Some \<lparr>w_name = ''Sollet'', w_url = ''https://www.sollet.io'',
                w_icon = ''sollet.svg'', w_adapter_throws = False, w_ready = True\<rparr>,
       adapter = Some (AdapterOf ''Sollet''),
       ready = True, connecting = False, disconnecting = False, connected = False,
       autoApprove = False, publicKey = None\<rparr>)"
    by (simp add: prod_eq_iff)
  ultimately show ?thesis by (simp add: reset_def)
qed

end
